theory Spec2Isabelle
  imports Main "HOL-Library.Sublist"
begin

section \<open>The assistant route: values, effects and the two handlers\<close>

text \<open>
  The repository is one file, \<^verbatim>\<open>src/app/api/assistant/route.ts\<close>: the asynchronous function
  \<^verbatim>\<open>createApiGateway\<close>, the constant \<^verbatim>\<open>tools\<close> and the handler \<^verbatim>\<open>POST\<close>. Both functions are
  sequences of awaited calls to services outside the repository, wrapped in a try/catch.
  The embedding makes the outside world a record of functions (\<open>env\<close>), a thrown value a
  value of type \<open>thrown\<close>, an awaited call a pair of the calls made so far and the outcome
  (\<open>Throws\<close> or \<open>Returns\<close>), and each try/catch a case distinction on that outcome.
\<close>

subsection \<open>Values of the runtime\<close>

text \<open>
  A thrown value, as far as the two catch blocks look at it: its \<^verbatim>\<open>message\<close> property, a
  string (\<open>None\<close> when the value has none, as a thrown \<^verbatim>\<open>null\<close> or a thrown string), and the
  text \<^verbatim>\<open>String(error)\<close>. These are the values the clients of the two services throw (Error
  objects) and the values the runtime throws; a value on which \<^verbatim>\<open>String(error)\<close> itself would
  throw, or whose \<^verbatim>\<open>message\<close> is a truthy value that is not a string, is outside this type.
\<close>

datatype thrown = Thrown (err_message: "string option") (err_string: string)

text \<open>\<^verbatim>\<open>error?.message || String(error)\<close>: the empty string is falsy.\<close>

definition errText :: "thrown \<Rightarrow> string" where
  "errText e = (case err_message e of
                  None \<Rightarrow> err_string e
                | Some m \<Rightarrow> (if m = [] then err_string e else m))"

datatype 'a outcome = Throws thrown | Returns 'a

text \<open>
  A property read off a parsed JSON value: absent (\<^verbatim>\<open>undefined\<close>), a string, or any other
  value that a template literal renders (a number, a boolean, \<^verbatim>\<open>null\<close>, an array or object with
  the default conversion), kept as the text it is rendered to.
\<close>

datatype jsval = JUndefined | JStr string | JOther string

fun template :: "jsval \<Rightarrow> string" where
  "template JUndefined = ''undefined''"
| "template (JStr s) = s"
| "template (JOther s) = s"

subsection \<open>JSON.stringify on the object literals of the source\<close>

text \<open>
  The three object literals handed to \<^verbatim>\<open>JSON.stringify\<close> have string members only. A
  string is quoted as ECMAScript's QuoteJSONString does: the quote and the backslash are
  escaped, the control characters below 0x20 become \<^verbatim>\<open>\b \t \n \f \r\<close> or \<^verbatim>\<open>\u00XX\<close> in lower-case
  hexadecimal, and every other character stands for itself. Characters are the 8-bit \<open>char\<close>
  of HOL, so the model covers the code units up to 0xFF.
\<close>

definition hexdigit :: "nat \<Rightarrow> char" where
  "hexdigit n = (if n < 10 then char_of (48 + n) else char_of (87 + n))"

definition escape :: "char \<Rightarrow> string" where
  "escape c =
    (if c = CHR 0x22 then [CHR 0x5C, CHR 0x22]
     else if c = CHR 0x5C then [CHR 0x5C, CHR 0x5C]
     else if c = CHR 0x08 then [CHR 0x5C, CHR ''b'']
     else if c = CHR 0x09 then [CHR 0x5C, CHR ''t'']
     else if c = CHR 0x0A then [CHR 0x5C, CHR ''n'']
     else if c = CHR 0x0C then [CHR 0x5C, CHR ''f'']
     else if c = CHR 0x0D then [CHR 0x5C, CHR ''r'']
     else if (of_char c :: nat) < 32
       then [CHR 0x5C, CHR ''u'', CHR ''0'', CHR ''0'',
             hexdigit ((of_char c :: nat) div 16), hexdigit ((of_char c :: nat) mod 16)]
     else [c])"

definition quote :: "string \<Rightarrow> string" where
  "quote s = CHR 0x22 # concat (map escape s) @ [CHR 0x22]"

definition member_text :: "string \<times> string \<Rightarrow> string" where
  "member_text kv = quote (fst kv) @ CHR '':'' # quote (snd kv)"

fun members_text :: "(string \<times> string) list \<Rightarrow> string" where
  "members_text [] = []"
| "members_text [kv] = member_text kv"
| "members_text (kv # kvs) = member_text kv @ CHR '','' # members_text kvs"

definition JSON_stringify :: "(string \<times> string) list \<Rightarrow> string" where
  "JSON_stringify kvs = CHR ''{'' # members_text kvs @ [CHR ''}'']"

text \<open>The object literals of lines 80-85, and of lines 87-90 and 191-194.\<close>

definition success_object :: "string \<Rightarrow> string \<Rightarrow> string \<Rightarrow> (string \<times> string) list" where
  "success_object api cfg gw =
     [(''status'', ''success''), (''api'', api), (''api_config'', cfg), (''gateway'', gw)]"

definition error_object :: "string \<Rightarrow> (string \<times> string) list" where
  "error_object m = [(''status'', ''error''), (''message'', m)]"

subsection \<open>Reading such a text back\<close>

text \<open>
  The source never parses the text it serialises: the completion service reads it. To
  state what that reader can recover, \<open>JSON_parse_flat\<close> reads the JSON texts that are one
  object with string members and no insignificant white space, and returns the members in
  order; on those texts it returns what \<^verbatim>\<open>JSON.parse\<close> returns. \<open>unescape\<close> decodes
  one escape sequence after its backslash, and \<open>read_string\<close> reads a string after its
  opening quote, up to and including the closing one.
\<close>

definition hexval :: "char \<Rightarrow> nat option" where
  "hexval c =
    (let n = (of_char c :: nat) in
     if 48 \<le> n \<and> n \<le> 57 then Some (n - 48)
     else if 97 \<le> n \<and> n \<le> 102 then Some (n - 87)
     else if 65 \<le> n \<and> n \<le> 70 then Some (n - 55)
     else None)"

definition hex4 :: "char \<Rightarrow> char \<Rightarrow> char \<Rightarrow> char \<Rightarrow> nat option" where
  "hex4 a b c d =
    (case (hexval a, hexval b, hexval c, hexval d) of
       (Some x, Some y, Some z, Some w) \<Rightarrow> Some (((x * 16 + y) * 16 + z) * 16 + w)
     | _ \<Rightarrow> None)"

definition unescape :: "string \<Rightarrow> (char \<times> string) option" where
  "unescape s =
    (case s of
       [] \<Rightarrow> None
     | d # ds \<Rightarrow>
        (if d = CHR 0x22 then Some (CHR 0x22, ds)
         else if d = CHR 0x5C then Some (CHR 0x5C, ds)
         else if d = CHR ''/'' then Some (CHR ''/'', ds)
         else if d = CHR ''b'' then Some (CHR 0x08, ds)
         else if d = CHR ''t'' then Some (CHR 0x09, ds)
         else if d = CHR ''n'' then Some (CHR 0x0A, ds)
         else if d = CHR ''f'' then Some (CHR 0x0C, ds)
         else if d = CHR ''r'' then Some (CHR 0x0D, ds)
         else if d = CHR ''u'' then
           (case ds of
              h1 # h2 # h3 # h4 # rest \<Rightarrow>
                (case hex4 h1 h2 h3 h4 of
                   None \<Rightarrow> None
                 | Some n \<Rightarrow> (if n < 256 then Some (char_of n, rest) else None))
            | _ \<Rightarrow> None)
         else None))"

lemma unescape_shorter: "unescape s = Some (d, r) \<Longrightarrow> length r < length s"
  by (auto simp: unescape_def split: list.splits if_splits option.splits)

definition consume :: "char \<Rightarrow> (string \<times> string) option \<Rightarrow> (string \<times> string) option" where
  "consume c r = (case r of None \<Rightarrow> None | Some (s, rest) \<Rightarrow> Some (c # s, rest))"

function read_string :: "string \<Rightarrow> (string \<times> string) option" where
  "read_string [] = None"
| "read_string (c # cs) =
    (if c = CHR 0x22 then Some ([], cs)
     else if c = CHR 0x5C then
       (case unescape cs of
          None \<Rightarrow> None
        | Some (d, rest) \<Rightarrow> consume d (read_string rest))
     else if (of_char c :: nat) < 32 then None
     else consume c (read_string cs))"
  by pat_completeness auto
termination
  by (relation "measure length") (auto dest: unescape_shorter)

lemma read_string_shorter: "read_string s = Some (x, r) \<Longrightarrow> length r < length s"
proof (induction s arbitrary: x rule: read_string.induct)
  case 1
  then show ?case by simp
next
  case (2 c cs)
  show ?case
  proof (cases "c = CHR 0x22")
    case True
    with "2.prems" show ?thesis by simp
  next
    case nq: False
    show ?thesis
    proof (cases "c = CHR 0x5C")
      case True
      with nq "2.prems" obtain d rest y where u: "unescape cs = Some (d, rest)"
        and r: "read_string rest = Some (y, r)"
        by (auto simp: consume_def split: option.splits)
      from "2.IH"(1)[OF nq True u refl r] unescape_shorter[OF u] show ?thesis by simp
    next
      case nb: False
      with nq "2.prems" obtain y where ge: "\<not> (of_char c :: nat) < 32"
        and r: "read_string cs = Some (y, r)"
        by (auto simp: consume_def split: option.splits if_splits)
      from "2.IH"(2)[OF nq nb ge r] show ?thesis by simp
    qed
  qed
qed

text \<open>The members after the opening brace of a non-empty object, up to the end of the text.\<close>

function read_members :: "string \<Rightarrow> (string \<times> string) list option" where
  "read_members [] = None"
| "read_members (q # s1) =
    (if q \<noteq> CHR 0x22 then None
     else case read_string s1 of
       None \<Rightarrow> None
     | Some (k, s2) \<Rightarrow>
        (case s2 of
           c # q' # s3 \<Rightarrow>
             (if c \<noteq> CHR '':'' \<or> q' \<noteq> CHR 0x22 then None
              else case read_string s3 of
                None \<Rightarrow> None
              | Some (v, s4) \<Rightarrow>
                 (case s4 of
                    [] \<Rightarrow> None
                  | d # s5 \<Rightarrow>
                     (if d = CHR ''}'' then (if s5 = [] then Some [(k, v)] else None)
                      else if d = CHR '','' then
                        (case read_members s5 of
                           None \<Rightarrow> None
                         | Some kvs \<Rightarrow> Some ((k, v) # kvs))
                      else None)))
         | _ \<Rightarrow> None))"
  by pat_completeness auto
termination
proof (relation "measure length", simp, goal_cases)
  case (1 q s1 kr k s2 c ql q' s3 vr v s4 d s5)
  then show ?case
    using read_string_shorter[of s1 k s2] read_string_shorter[of s3 v s4] by simp
qed

definition JSON_parse_flat :: "string \<Rightarrow> (string \<times> string) list option" where
  "JSON_parse_flat s =
    (case s of
       [] \<Rightarrow> None
     | c # cs \<Rightarrow>
        (if c \<noteq> CHR ''{'' then None
         else if cs = [CHR ''}''] then Some []
         else read_members cs))"

text \<open>Property lookup on the parsed object: of two members with one key the later wins.\<close>

definition member :: "(string \<times> string) list \<Rightarrow> string \<Rightarrow> string option" where
  "member kvs k = map_of (rev kvs) k"

definition status_of_text :: "string \<Rightarrow> string option" where
  "status_of_text s = (case JSON_parse_flat s of None \<Rightarrow> None | Some kvs \<Rightarrow> member kvs ''status'')"

subsection \<open>Requests, responses and the calls that leave the process\<close>

text \<open>\<^verbatim>\<open>CreateApiGatewayArgs\<close> (lines 7-12). The cast of line 184 checks nothing, so a field
  holds whatever the parsed payload has under that name.\<close>

record CreateApiGatewayArgs =
  project_id :: jsval
  gateway_id :: jsval
  region :: jsval
  openapi_spec_url :: jsval

text \<open>The parameter objects of the three calls of lines 46-53, 57-61 and 70-74.\<close>

record apis_create_params =
  api_parent :: string
  api_apiId :: jsval
  api_body_name :: string
  api_body_displayName :: string

record configs_create_params =
  cfg_parent :: string
  cfg_apiConfigId :: string
  cfg_body_apiConfigId :: string
  cfg_body_document_path :: jsval

record gateways_create_params =
  gw_parent :: string
  gw_gatewayId :: jsval
  gw_body_apiConfig :: string
  gw_body_displayName :: string

text \<open>The constant \<^verbatim>\<open>tools\<close> (lines 98-132).\<close>

record tool_property =
  prop_name :: string
  prop_type :: string
  prop_description :: string

record tool =
  tool_type :: string
  fn_name :: string
  fn_description :: string
  fn_properties :: "tool_property list"
  fn_required :: "string list"
  fn_additionalProperties :: bool
  fn_strict :: bool

definition tools :: "tool list" where
  "tools =
    [\<lparr>tool_type = ''function'',
      fn_name = ''create_api_gateway'',
      fn_description =
        ''Creates a new API Gateway in Google Cloud with an API config (OpenAPI spec).'',
      fn_properties =
        [\<lparr>prop_name = ''project_id'', prop_type = ''string'',
           prop_description = ''Google Cloud project ID.''\<rparr>,
         \<lparr>prop_name = ''gateway_id'', prop_type = ''string'',
           prop_description = ''Unique identifier for the API Gateway.''\<rparr>,
         \<lparr>prop_name = ''region'', prop_type = ''string'',
           prop_description = ''Google Cloud region to deploy the gateway in.''\<rparr>,
         \<lparr>prop_name = ''openapi_spec_url'', prop_type = ''string'',
           prop_description =
             ''URL or path to the OpenAPI specification file to attach to the gateway.''\<rparr>],
      fn_required = [''project_id'', ''gateway_id'', ''region'', ''openapi_spec_url''],
      fn_additionalProperties = False,
      fn_strict = True\<rparr>]"

text \<open>A tool call of a completion: its id, its type, and the name and raw argument text of
  its \<^verbatim>\<open>function\<close> member.\<close>

record tool_call =
  tc_id :: string
  tc_type :: string
  tc_name :: string
  tc_arguments :: string

text \<open>A message of the conversation sent to the completion service: the system and user
  messages of lines 147-157, the assistant message of lines 198-202 (content and tool calls)
  and the tool message of lines 203-207 (tool call id and content).\<close>

datatype message =
    SystemMsg string
  | UserMsg jsval
  | AssistantMsg string "tool_call list"
  | ToolMsg string string

record chat_request =
  req_model :: string
  req_messages :: "message list"
  req_tools :: "tool list"

text \<open>What the handler reads of a completion: the choices, and of a choice's message its
  content (\<open>None\<close> for \<^verbatim>\<open>null\<close>) and its tool calls (\<open>None\<close> when absent).\<close>

record chat_message =
  content :: "string option"
  tool_calls :: "tool_call list option"

record completion =
  choices :: "chat_message list"

text \<open>The value \<^verbatim>\<open>JSON.parse(rawArgs)\<close> as the handler uses it: \<^verbatim>\<open>null\<close>, or a value whose four
  properties are read. The body of the request likewise: \<^verbatim>\<open>null\<close>, or a value whose
  \<^verbatim>\<open>userMessage\<close> property is read.\<close>

datatype parsed = PNull | PObj CreateApiGatewayArgs

datatype request_body = BodyNull | BodyObj jsval

datatype response_body = AssistantResponse string | ErrorBody string

record response =
  status :: nat
  body :: response_body

text \<open>The calls the code makes to the outside, in the order it makes them.\<close>

datatype call =
    GoogleApigateway
  | ApisCreate apis_create_params
  | ConfigsCreate configs_create_params
  | GatewaysCreate gateways_create_params
  | OpenAINew
  | CompletionsCreate chat_request
  | ConsoleError thrown

text \<open>
  The world outside the repository. Each service is a function from the request to the
  outcome of the awaited call; the resource-management calls return the \<^verbatim>\<open>data.name\<close> of
  their response, which by the interface contract is the identifying name of the accepted
  resource. \<open>JSON_parse\<close> is the runtime's \<^verbatim>\<open>JSON.parse\<close> on the raw argument text.
  \<open>destructure_null\<close> and \<open>read_undefined\<close> are the TypeError values the runtime throws when
  a null value is destructured and when a property of \<^verbatim>\<open>undefined\<close> is read; their text
  depends on the engine.
\<close>

record env =
  google_apigateway :: "unit outcome"
  apis_create :: "apis_create_params \<Rightarrow> string outcome"
  configs_create :: "configs_create_params \<Rightarrow> string outcome"
  gateways_create :: "gateways_create_params \<Rightarrow> string outcome"
  OpenAI_new :: "unit outcome"
  completions_create :: "chat_request \<Rightarrow> completion outcome"
  JSON_parse :: "string \<Rightarrow> parsed outcome"
  destructure_null :: thrown
  read_undefined :: thrown

subsection \<open>Sequencing awaited calls\<close>

text \<open>A computation is the list of calls it made and how it ended. \<open>andThen\<close> is the
  semicolon of an async function: a throw skips what follows.\<close>

type_synonym 'a eff = "call list \<times> 'a outcome"

definition andThen :: "'a eff \<Rightarrow> ('a \<Rightarrow> 'b eff) \<Rightarrow> 'b eff" where
  "andThen m f =
    (case m of
       (t, Throws e) \<Rightarrow> (t, Throws e)
     | (t, Returns x) \<Rightarrow> (case f x of (t', r) \<Rightarrow> (t @ t', r)))"

definition await :: "call \<Rightarrow> 'a outcome \<Rightarrow> 'a eff" where
  "await c r = ([c], r)"

definition now :: "'a outcome \<Rightarrow> 'a eff" where
  "now r = ([], r)"

subsection \<open>createApiGateway (lines 19-92)\<close>

definition apiParent :: "CreateApiGatewayArgs \<Rightarrow> string" where
  "apiParent a = ''projects/'' @ template (project_id a) @ ''/locations/global''"

definition api_params :: "CreateApiGatewayArgs \<Rightarrow> apis_create_params" where
  "api_params a =
    \<lparr>api_parent = apiParent a,
     api_apiId = gateway_id a,
     api_body_name = apiParent a @ ''/apis/'' @ template (gateway_id a),
     api_body_displayName = template (gateway_id a) @ ''-display''\<rparr>"

definition config_params :: "CreateApiGatewayArgs \<Rightarrow> configs_create_params" where
  "config_params a =
    \<lparr>cfg_parent = apiParent a @ ''/apis/'' @ template (gateway_id a),
     cfg_apiConfigId = template (gateway_id a) @ ''-config'',
     cfg_body_apiConfigId = template (gateway_id a) @ ''-config'',
     cfg_body_document_path = openapi_spec_url a\<rparr>"

definition gateway_params :: "CreateApiGatewayArgs \<Rightarrow> string \<Rightarrow> gateways_create_params" where
  "gateway_params a configName =
    \<lparr>gw_parent = ''projects/'' @ template (project_id a) @ ''/locations/'' @ template (region a),
     gw_gatewayId = gateway_id a,
     gw_body_apiConfig = configName,
     gw_body_displayName = template (gateway_id a) @ ''-display''\<rparr>"

text \<open>The try block: the client, then the three creations, each awaited before the next.\<close>

definition createApiGateway_try :: "env \<Rightarrow> CreateApiGatewayArgs \<Rightarrow> string eff" where
  "createApiGateway_try env a =
    andThen (await GoogleApigateway (google_apigateway env)) (\<lambda>_.
    andThen (await (ApisCreate (api_params a)) (apis_create env (api_params a))) (\<lambda>createApiRes.
    andThen (await (ConfigsCreate (config_params a)) (configs_create env (config_params a))) (\<lambda>configRes.
    andThen (await (GatewaysCreate (gateway_params a configRes))
               (gateways_create env (gateway_params a configRes))) (\<lambda>gatewayRes.
    now (Returns (JSON_stringify (success_object createApiRes configRes gatewayRes)))))))"

text \<open>The body of the function: what the try block returns, or the catch block's text for
  what it threw.\<close>

definition createApiGateway_body :: "env \<Rightarrow> CreateApiGatewayArgs \<Rightarrow> string eff" where
  "createApiGateway_body env a =
    (case createApiGateway_try env a of
       (t, Returns s) \<Rightarrow> (t, Returns s)
     | (t, Throws e) \<Rightarrow> (t, Returns (JSON_stringify (error_object (errText e)))))"

text \<open>
  The function, on the value it is called with. The cast of line 184 checks nothing, so that
  value is whatever \<^verbatim>\<open>JSON.parse\<close> returned. The parameter list of lines 19-24 destructures it
  before the try block is entered: on \<^verbatim>\<open>null\<close> that throws, outside the try, and the promise of
  the function is rejected (the \<^verbatim>\<open>await\<close> of line 188 then throws in the handler); on any other
  value the four properties are read and the body runs.
\<close>

definition createApiGateway :: "env \<Rightarrow> parsed \<Rightarrow> string eff" where
  "createApiGateway env p =
    (case p of
       PNull \<Rightarrow> now (Throws (destructure_null env))
     | PObj a \<Rightarrow> createApiGateway_body env a)"

subsection \<open>POST (lines 138-236)\<close>

definition system_prompt :: string where
  "system_prompt = ''You are assisting with Google API Gateway migrations. Use create_api_gateway if the user wants to create or migrate an API.''"

definition chat :: "message list \<Rightarrow> chat_request" where
  "chat ms = \<lparr>req_model = ''gpt-4-0613'', req_messages = ms, req_tools = tools\<rparr>"

text \<open>\<^verbatim>\<open>const { userMessage } = await request.json()\<close>: destructuring \<^verbatim>\<open>null\<close> throws.\<close>

definition userMessage_of :: "env \<Rightarrow> request_body \<Rightarrow> jsval outcome" where
  "userMessage_of env b =
    (case b of BodyNull \<Rightarrow> Throws (destructure_null env) | BodyObj u \<Rightarrow> Returns u)"

text \<open>\<^verbatim>\<open>completion.choices[0].message\<close>: with no choice, a property of \<^verbatim>\<open>undefined\<close> is read.\<close>

definition first_message :: "env \<Rightarrow> completion \<Rightarrow> chat_message outcome" where
  "first_message env c =
    (case choices c of [] \<Rightarrow> Throws (read_undefined env) | m # _ \<Rightarrow> Returns m)"

text \<open>\<^verbatim>\<open>content ?? ""\<close>\<close>

definition content_or_empty :: "chat_message \<Rightarrow> string" where
  "content_or_empty m = (case content m of None \<Rightarrow> [] | Some t \<Rightarrow> t)"

text \<open>\<^verbatim>\<open>NextResponse.json(x)\<close> answers with status 200 unless another is given.\<close>

definition json_response :: "response_body \<Rightarrow> response" where
  "json_response b = \<lparr>status = 200, body = b\<rparr>"

definition assistant_message :: "tool_call \<Rightarrow> message" where
  "assistant_message functionCall = AssistantMsg [] [functionCall]"

definition tool_message :: "tool_call \<Rightarrow> string \<Rightarrow> message" where
  "tool_message functionCall result = ToolMsg (tc_id functionCall) result"

definition initial_messages :: "jsval \<Rightarrow> message list" where
  "initial_messages userMessage = [SystemMsg system_prompt, UserMsg userMessage]"

text \<open>Steps 5 to 7 (lines 181-219), for a tool call whose type is \<^verbatim>\<open>function\<close>.\<close>

definition handle_function_call :: "env \<Rightarrow> message list \<Rightarrow> tool_call \<Rightarrow> response eff" where
  "handle_function_call env messages functionCall =
    andThen (now (JSON_parse env (tc_arguments functionCall))) (\<lambda>args.
    andThen (if tc_name functionCall = ''create_api_gateway''
             then createApiGateway env args
             else now (Returns (JSON_stringify
                    (error_object (''Unknown function: '' @ tc_name functionCall))))) (\<lambda>result.
    (let messages2 = messages @ [assistant_message functionCall, tool_message functionCall result]
     in andThen (await (CompletionsCreate (chat messages2))
                   (completions_create env (chat messages2))) (\<lambda>completion2.
        andThen (now (first_message env completion2)) (\<lambda>m2.
        now (Returns (json_response (AssistantResponse (content_or_empty m2)))))))))"

definition unexpected_text :: string where
  "unexpected_text = ''Unexpected tool call structure. Please try again or contact support.''"

text \<open>The try block of the handler; its argument is the outcome of \<^verbatim>\<open>await request.json()\<close>.\<close>

definition POST_try :: "env \<Rightarrow> request_body outcome \<Rightarrow> response eff" where
  "POST_try env request =
    andThen (now request) (\<lambda>b.
    andThen (now (userMessage_of env b)) (\<lambda>userMessage.
    (let messages = initial_messages userMessage
     in andThen (await OpenAINew (OpenAI_new env)) (\<lambda>_.
        andThen (await (CompletionsCreate (chat messages))
                   (completions_create env (chat messages))) (\<lambda>completion.
        andThen (now (first_message env completion)) (\<lambda>m.
          (case tool_calls m of
             None \<Rightarrow> now (Returns (json_response (AssistantResponse (content_or_empty m))))
           | Some [] \<Rightarrow> now (Returns (json_response (AssistantResponse (content_or_empty m))))
           | Some (functionCall # _) \<Rightarrow>
               (if tc_type functionCall = ''function''
                then handle_function_call env messages functionCall
                else now (Returns (json_response (AssistantResponse unexpected_text)))))))))))"

text \<open>The handler: the response of the try block, or the catch block's log and response.\<close>

definition error_response :: "thrown \<Rightarrow> response" where
  "error_response e = \<lparr>status = 500, body = ErrorBody (errText e)\<rparr>"

definition POST :: "env \<Rightarrow> request_body outcome \<Rightarrow> call list \<times> response" where
  "POST env request =
    (case POST_try env request of
       (t, Returns r) \<Rightarrow> (t, r)
     | (t, Throws e) \<Rightarrow> (t @ [ConsoleError e], error_response e))"

subsection \<open>The result of an action, and the schema of its arguments\<close>

text \<open>
  An ActionResult is one of the two objects that \<^verbatim>\<open>createApiGateway\<close> and the handler
  serialise: the success object with the three resource names, or the error object with a
  message. \<open>tool_content\<close> is the content of a tool-role message.
\<close>

datatype ActionResult = ActionSuccess string string string | ActionError string

fun object_of :: "ActionResult \<Rightarrow> (string \<times> string) list" where
  "object_of (ActionSuccess api cfg gw) = success_object api cfg gw"
| "object_of (ActionError m) = error_object m"

fun status_of :: "ActionResult \<Rightarrow> string" where
  "status_of (ActionSuccess _ _ _) = ''success''"
| "status_of (ActionError _) = ''error''"

definition serialize :: "ActionResult \<Rightarrow> string" where
  "serialize r = JSON_stringify (object_of r)"

fun tool_content :: "message \<Rightarrow> string option" where
  "tool_content (ToolMsg _ c) = Some c"
| "tool_content _ = None"

text \<open>
  The parameter schema of the one tool (lines 105-128): the four properties are required
  and of type string.
\<close>

definition is_string :: "jsval \<Rightarrow> bool" where
  "is_string v = (case v of JStr _ \<Rightarrow> True | _ \<Rightarrow> False)"

definition satisfies_schema :: "CreateApiGatewayArgs \<Rightarrow> bool" where
  "satisfies_schema a =
    (is_string (project_id a) \<and> is_string (gateway_id a) \<and> is_string (region a)
     \<and> is_string (openapi_spec_url a))"

section \<open>Concrete runs\<close>

text \<open>
  One outside world to run the handlers in: a resource-management service that accepts
  every creation and names the resource after its request, and a completion service that
  answers the first conversation with one call of \<^verbatim>\<open>create_api_gateway\<close> and the second with a
  text. \<open>parse_args\<close> stands for \<^verbatim>\<open>JSON.parse\<close> on the argument texts used below: objects with
  string members, which it reads as \<^verbatim>\<open>JSON.parse\<close> does, and the empty text and an object text
  cut off after its first colon, on which \<^verbatim>\<open>JSON.parse\<close> meets the end of the input where a
  value must start and throws a SyntaxError. The messages of the SyntaxError and of the
  two TypeError values stand for the engine's own. The other worlds differ from this one in
  the completion service or in one resource call.
\<close>

definition demo_args :: CreateApiGatewayArgs where
  "demo_args =
    \<lparr>project_id = JStr ''acme'', gateway_id = JStr ''orders-gateway'',
     region = JStr ''us-central1'', openapi_spec_url = JStr ''gs://bucket/spec.yaml''\<rparr>"

definition demo_raw_args :: string where
  "demo_raw_args =
    JSON_stringify [(''project_id'', ''acme''), (''gateway_id'', ''orders-gateway''),
      (''region'', ''us-central1''), (''openapi_spec_url'', ''gs://bucket/spec.yaml'')]"

definition demo_call :: tool_call where
  "demo_call =
    \<lparr>tc_id = ''call_1'', tc_type = ''function'', tc_name = ''create_api_gateway'',
     tc_arguments = demo_raw_args\<rparr>"

definition syntax_error :: thrown where
  "syntax_error =
    Thrown (Some ''Unexpected end of JSON input'') ''SyntaxError: Unexpected end of JSON input''"

definition property :: "(string \<times> string) list \<Rightarrow> string \<Rightarrow> jsval" where
  "property kvs k = (case member kvs k of None \<Rightarrow> JUndefined | Some v \<Rightarrow> JStr v)"

definition parse_args :: "string \<Rightarrow> parsed outcome" where
  "parse_args s =
    (case JSON_parse_flat s of
       None \<Rightarrow> Throws syntax_error
     | Some kvs \<Rightarrow>
         Returns (PObj \<lparr>project_id = property kvs ''project_id'', gateway_id = property kvs ''gateway_id'',
                        region = property kvs ''region'',
                        openapi_spec_url = property kvs ''openapi_spec_url''\<rparr>))"

definition reply_with :: "chat_message \<Rightarrow> chat_message \<Rightarrow> chat_request \<Rightarrow> completion outcome" where
  "reply_with first second rq =
    (if length (req_messages rq) = 2 then Returns \<lparr>choices = [first]\<rparr>
     else Returns \<lparr>choices = [second]\<rparr>)"

definition final_text :: string where
  "final_text = ''Your API Gateway orders-gateway was created.''"

definition demo_env :: env where
  "demo_env =
    \<lparr>google_apigateway = Returns (),
     apis_create = (\<lambda>p. Returns (api_body_name p)),
     configs_create = (\<lambda>p. Returns (cfg_parent p @ ''/configs/'' @ cfg_apiConfigId p)),
     gateways_create = (\<lambda>p. Returns (gw_parent p @ ''/gateways/'' @ template (gw_gatewayId p))),
     OpenAI_new = Returns (),
     completions_create =
       reply_with \<lparr>content = None, tool_calls = Some [demo_call]\<rparr>
                  \<lparr>content = Some final_text, tool_calls = None\<rparr>,
     JSON_parse = parse_args,
     destructure_null =
       Thrown (Some ''Cannot destructure property of null'')
              ''TypeError: Cannot destructure property of null'',
     read_undefined =
       Thrown (Some ''Cannot read properties of undefined'')
              ''TypeError: Cannot read properties of undefined''\<rparr>"



definition plain_reply :: chat_message where
  "plain_reply = \<lparr>content = Some ''I am fine, thank you.'', tool_calls = None\<rparr>"

definition plain_env :: env where
  "plain_env = demo_env\<lparr>completions_create := reply_with plain_reply plain_reply\<rparr>"

definition custom_call :: tool_call where
  "custom_call = demo_call\<lparr>tc_type := ''custom''\<rparr>"

definition custom_env :: env where
  "custom_env =
    demo_env\<lparr>completions_create :=
      reply_with \<lparr>content = None, tool_calls = Some [custom_call]\<rparr> plain_reply\<rparr>"

definition demo_instruction :: jsval where
  "demo_instruction = JStr ''create a gateway''"

definition final_reply :: chat_message where
  "final_reply = \<lparr>content = Some final_text, tool_calls = None\<rparr>"

definition calling :: "tool_call \<Rightarrow> chat_message" where
  "calling tc = \<lparr>content = None, tool_calls = Some [tc]\<rparr>"

definition calling_env :: "tool_call \<Rightarrow> env" where
  "calling_env tc = demo_env\<lparr>completions_create := reply_with (calling tc) final_reply\<rparr>"



definition truncated_args :: string where
  "truncated_args = CHR ''{'' # CHR 0x22 # ''project_id'' @ [CHR 0x22, CHR '':'']"

definition truncated_call :: tool_call where
  "truncated_call = demo_call\<lparr>tc_arguments := truncated_args\<rparr>"






definition rate_limit :: thrown where
  "rate_limit = Thrown (Some ''429 Rate limit reached'') ''Error: 429 Rate limit reached''"

definition rate_limited_env :: env where
  "rate_limited_env = demo_env\<lparr>completions_create := (\<lambda>_. Throws rate_limit)\<rparr>"

definition bad_request :: thrown where
  "bad_request =
    Thrown (Some ''400 Invalid value for content'') ''Error: 400 Invalid value for content''"

definition strict_env :: env where
  "strict_env = demo_env\<lparr>completions_create := (\<lambda>_. Throws bad_request)\<rparr>"

definition demo_api :: string where
  "demo_api = ''projects/acme/locations/global/apis/orders-gateway''"

definition demo_config :: string where
  "demo_config = ''projects/acme/locations/global/apis/orders-gateway/configs/orders-gateway-config''"

definition demo_gateway :: string where
  "demo_gateway = ''projects/acme/locations/us-central1/gateways/orders-gateway''"

section \<open>Properties\<close>

subsection \<open>The reader inverts the serialiser\<close>

lemma hexval_hexdigit: "k < 16 \<Longrightarrow> hexval (hexdigit k) = Some k"
  by (auto simp: hexval_def hexdigit_def Let_def)

lemma hexval_zero: "hexval CHR ''0'' = Some 0"
  by (simp add: hexval_def)

lemma unescape_control:
  assumes "(of_char c :: nat) < 32"
  shows "unescape (CHR ''u'' # CHR ''0'' # CHR ''0'' # hexdigit ((of_char c :: nat) div 16)
            # hexdigit ((of_char c :: nat) mod 16) # rest) = Some (c, rest)"
proof -
  let ?n = "of_char c :: nat"
  have d: "?n div 16 < 16" using assms by simp
  have m: "?n mod 16 < 16" by simp
  have h: "hex4 CHR ''0'' CHR ''0'' (hexdigit (?n div 16)) (hexdigit (?n mod 16)) = Some ?n"
    by (simp add: hex4_def hexval_zero hexval_hexdigit[OF d] hexval_hexdigit[OF m])
  have lt: "?n < 256" using assms by simp
  show ?thesis
    by (simp add: unescape_def h lt)
qed

lemma read_string_escape:
  "read_string (escape c @ rest) = consume c (read_string rest)"
proof -
  consider (q) "c = CHR 0x22" | (b) "c = CHR 0x5C" | (c8) "c = CHR 0x08" | (c9) "c = CHR 0x09"
    | (ca) "c = CHR 0x0A" | (cc) "c = CHR 0x0C" | (cd) "c = CHR 0x0D"
    | (ctl) "c \<noteq> CHR 0x22" "c \<noteq> CHR 0x5C" "c \<noteq> CHR 0x08" "c \<noteq> CHR 0x09" "c \<noteq> CHR 0x0A"
            "c \<noteq> CHR 0x0C" "c \<noteq> CHR 0x0D" "(of_char c :: nat) < 32"
    | (plain) "c \<noteq> CHR 0x22" "c \<noteq> CHR 0x5C" "\<not> (of_char c :: nat) < 32"
    by (cases "(of_char c :: nat) < 32") auto
  then show ?thesis
  proof cases
    case ctl
    then show ?thesis
      by (simp add: escape_def unescape_control)
  next
    case plain
    then have "escape c = [c]"
      by (auto simp: escape_def)
    with plain show ?thesis by simp
  qed (simp_all add: escape_def unescape_def)
qed

lemma read_string_quote:
  "read_string (concat (map escape s) @ CHR 0x22 # rest) = Some (s, rest)"
  by (induction s) (simp_all add: read_string_escape consume_def)

lemma member_text_shape:
  "member_text (k, v) @ rest =
     CHR 0x22 # (concat (map escape k) @ CHR 0x22 # CHR '':'' # CHR 0x22
        # (concat (map escape v) @ CHR 0x22 # rest))"
  by (simp add: member_text_def quote_def)

lemma read_members_text:
  "kvs \<noteq> [] \<Longrightarrow> read_members (members_text kvs @ [CHR ''}'']) = Some kvs"
proof (induction kvs rule: members_text.induct)
  case 1
  then show ?case by simp
next
  case (2 kv)
  obtain k v where kv: "kv = (k, v)" by (cases kv)
  show ?case
    unfolding kv members_text.simps member_text_shape
    by (simp add: read_string_quote)
next
  case (3 kv kv' kvs)
  obtain k v where kv: "kv = (k, v)" by (cases kv)
  have IH: "read_members (members_text (kv' # kvs) @ [CHR ''}'']) = Some (kv' # kvs)"
    using "3.IH" by simp
  have "read_members (member_text (k, v) @ CHR '','' # members_text (kv' # kvs) @ [CHR ''}''])
        = Some ((k, v) # kv' # kvs)"
    unfolding member_text_shape
    by (simp add: read_string_quote IH)
  then show ?case
    by (simp add: kv)
qed

lemma members_text_starts: "kvs \<noteq> [] \<Longrightarrow> \<exists>t. members_text kvs = CHR 0x22 # t"
  by (induction kvs rule: members_text.induct) (auto simp: member_text_def quote_def)

lemma JSON_parse_flat_stringify: "JSON_parse_flat (JSON_stringify kvs) = Some kvs"
proof (cases "kvs = []")
  case True
  then show ?thesis by (simp add: JSON_parse_flat_def JSON_stringify_def)
next
  case False
  from members_text_starts[OF False] obtain t where t: "members_text kvs = CHR 0x22 # t" ..
  have ne: "members_text kvs @ [CHR ''}''] \<noteq> [CHR ''}'']"
    by (simp add: t)
  show ?thesis
    using ne read_members_text[OF False]
    by (simp add: JSON_parse_flat_def JSON_stringify_def)
qed

subsection \<open>Running a sequence of awaited calls\<close>

lemma andThen_Throws: "andThen (t, Throws e) f = (t, Throws e)"
  by (simp add: andThen_def)

lemma andThen_Returns: "andThen (t, Returns x) f = (t @ fst (f x), snd (f x))"
  by (simp add: andThen_def split: prod.splits)

lemma andThen_now_Returns: "andThen (now (Returns x)) f = f x"
  by (simp add: now_def andThen_Returns)

lemma andThen_now_Throws: "andThen (now (Throws e)) f = ([], Throws e)"
  by (simp add: now_def andThen_Throws)

lemma andThen_await_Returns: "andThen (await c (Returns x)) f = (c # fst (f x), snd (f x))"
  by (simp add: await_def andThen_Returns)

lemma andThen_await_Throws: "andThen (await c (Throws e)) f = ([c], Throws e)"
  by (simp add: await_def andThen_Throws)

lemmas run_simps = andThen_now_Returns andThen_now_Throws andThen_await_Returns
  andThen_await_Throws

lemma second_completion_unfold:
  "andThen (await (CompletionsCreate rq) (completions_create env rq)) (\<lambda>completion2.
     andThen (now (first_message env completion2)) (\<lambda>m2.
     now (Returns (json_response (AssistantResponse (content_or_empty m2)))))) =
   (case completions_create env rq of
      Throws e \<Rightarrow> ([CompletionsCreate rq], Throws e)
    | Returns c2 \<Rightarrow>
       (case choices c2 of
          [] \<Rightarrow> ([CompletionsCreate rq], Throws (read_undefined env))
        | m2 # _ \<Rightarrow>
           ([CompletionsCreate rq],
            Returns (json_response (AssistantResponse (content_or_empty m2))))))"
  by (simp add: andThen_def await_def first_message_def now_def
      split: outcome.splits list.splits)

lemma handle_function_call_unfold:
  "handle_function_call env (initial_messages u) tc =
    (case JSON_parse env (tc_arguments tc) of
       Throws e \<Rightarrow> ([], Throws e)
     | Returns p \<Rightarrow>
        (case (if tc_name tc = ''create_api_gateway'' then createApiGateway env p
               else ([], Returns (JSON_stringify
                       (error_object (''Unknown function: '' @ tc_name tc))))) of
           (texec, Throws e) \<Rightarrow> (texec, Throws e)
         | (texec, Returns result) \<Rightarrow>
            (case completions_create env (chat (initial_messages u @ [assistant_message tc, tool_message tc result])) of
               Throws e \<Rightarrow>
                 (texec @ [CompletionsCreate (chat (initial_messages u @ [assistant_message tc, tool_message tc result]))], Throws e)
             | Returns c2 \<Rightarrow>
                (case choices c2 of
                   [] \<Rightarrow> (texec @ [CompletionsCreate (chat (initial_messages u @ [assistant_message tc, tool_message tc result]))],
                           Throws (read_undefined env))
                 | m2 # _ \<Rightarrow>
                    (texec @ [CompletionsCreate (chat (initial_messages u @ [assistant_message tc, tool_message tc result]))],
                     Returns (json_response (AssistantResponse (content_or_empty m2))))))))"
  unfolding handle_function_call_def Let_def second_completion_unfold
  by (simp add: andThen_def await_def now_def
      split: outcome.splits prod.splits list.splits)

lemma POST_try_unfold:
  "POST_try env request =
    (case request of
       Throws e \<Rightarrow> ([], Throws e)
     | Returns BodyNull \<Rightarrow> ([], Throws (destructure_null env))
     | Returns (BodyObj u) \<Rightarrow>
        (case OpenAI_new env of
           Throws e \<Rightarrow> ([OpenAINew], Throws e)
         | Returns _ \<Rightarrow>
            (case completions_create env (chat (initial_messages u)) of
               Throws e \<Rightarrow> ([OpenAINew, CompletionsCreate (chat (initial_messages u))], Throws e)
             | Returns c \<Rightarrow>
                (case choices c of
                   [] \<Rightarrow> ([OpenAINew, CompletionsCreate (chat (initial_messages u))],
                           Throws (read_undefined env))
                 | m # _ \<Rightarrow>
                    (case tool_calls m of
                       None \<Rightarrow>
                         ([OpenAINew, CompletionsCreate (chat (initial_messages u))],
                          Returns (json_response (AssistantResponse (content_or_empty m))))
                     | Some [] \<Rightarrow>
                         ([OpenAINew, CompletionsCreate (chat (initial_messages u))],
                          Returns (json_response (AssistantResponse (content_or_empty m))))
                     | Some (tc # _) \<Rightarrow>
                         (if tc_type tc = ''function''
                          then (OpenAINew # CompletionsCreate (chat (initial_messages u))
                                  # fst (handle_function_call env (initial_messages u) tc),
                                snd (handle_function_call env (initial_messages u) tc))
                          else ([OpenAINew, CompletionsCreate (chat (initial_messages u))],
                                Returns (json_response (AssistantResponse unexpected_text)))))))))"
  unfolding POST_try_def Let_def
  by (simp add: andThen_def await_def userMessage_of_def first_message_def now_def
      split: outcome.splits request_body.splits list.splits option.splits prod.splits)

lemma createApiGateway_try_cases:
  "createApiGateway_try env a =
    (case google_apigateway env of
       Throws e \<Rightarrow> ([GoogleApigateway], Throws e)
     | Returns _ \<Rightarrow>
        (case apis_create env (api_params a) of
           Throws e \<Rightarrow> ([GoogleApigateway, ApisCreate (api_params a)], Throws e)
         | Returns n1 \<Rightarrow>
            (case configs_create env (config_params a) of
               Throws e \<Rightarrow>
                 ([GoogleApigateway, ApisCreate (api_params a), ConfigsCreate (config_params a)],
                  Throws e)
             | Returns n2 \<Rightarrow>
                (case gateways_create env (gateway_params a n2) of
                   Throws e \<Rightarrow>
                     ([GoogleApigateway, ApisCreate (api_params a),
                       ConfigsCreate (config_params a), GatewaysCreate (gateway_params a n2)],
                      Throws e)
                 | Returns n3 \<Rightarrow>
                     ([GoogleApigateway, ApisCreate (api_params a),
                       ConfigsCreate (config_params a), GatewaysCreate (gateway_params a n2)],
                      Returns (JSON_stringify (success_object n1 n2 n3)))))))"
  unfolding createApiGateway_try_def
  by (simp add: run_simps now_def split: outcome.splits)


lemma POST_function_call:
  assumes "OpenAI_new env = Returns ()"
    and "completions_create env (chat (initial_messages u)) = Returns c"
    and "choices c = m # ms"
    and "tool_calls m = Some (tc # rest)"
    and "tc_type tc = ''function''"
  shows "POST_try env (Returns (BodyObj u)) =
          (OpenAINew # CompletionsCreate (chat (initial_messages u))
             # fst (handle_function_call env (initial_messages u) tc),
           snd (handle_function_call env (initial_messages u) tc))"
  unfolding POST_try_unfold using assms by simp

lemma demo_first_completion:
  "completions_create (demo_env\<lparr>completions_create := reply_with first second\<rparr>)
     (chat (initial_messages u)) = Returns \<lparr>choices = [first]\<rparr>"
  by (simp add: reply_with_def chat_def initial_messages_def)

subsection \<open>The resource-creation chain\<close>



subsection \<open>The handler\<close>

text \<open>
  C3. When the first completion returns a message with no tool call (the field absent or
  the list empty) and the text \<open>text\<close> as content, the handler makes no further call and
  answers with status 200 and the body \<^verbatim>\<open>{ assistantResponse: text }\<close>, the text unchanged.
\<close>

theorem POST_plain_text_verbatim:
  assumes "OpenAI_new env = Returns ()"
    and "completions_create env (chat (initial_messages u)) = Returns c"
    and "choices c = m # ms"
    and "tool_calls m = None \<or> tool_calls m = Some []"
    and "content m = Some text"
  shows "POST env (Returns (BodyObj u)) =
          ([OpenAINew, CompletionsCreate (chat (initial_messages u))],
           \<lparr>status = 200, body = AssistantResponse text\<rparr>)"
  unfolding POST_def POST_try_unfold using assms
  by (auto simp: content_or_empty_def json_response_def)

theorem POST_plain_text_verbatim_witness:
  "OpenAI_new plain_env = Returns ()
   \<and> completions_create plain_env (chat (initial_messages (JStr ''hi, how are you'')))
       = Returns \<lparr>choices = [plain_reply]\<rparr>
   \<and> tool_calls plain_reply = None
   \<and> content plain_reply = Some ''I am fine, thank you.''
   \<and> POST plain_env (Returns (BodyObj (JStr ''hi, how are you''))) =
        ([OpenAINew, CompletionsCreate (chat (initial_messages (JStr ''hi, how are you'')))],
         \<lparr>status = 200, body = AssistantResponse ''I am fine, thank you.''\<rparr>)"
proof -
  have h1: "OpenAI_new plain_env = Returns ()"
    by (simp add: plain_env_def demo_env_def)
  have h2: "completions_create plain_env (chat (initial_messages (JStr ''hi, how are you'')))
       = Returns \<lparr>choices = [plain_reply]\<rparr>"
    unfolding plain_env_def by (rule demo_first_completion)
  have h3: "choices \<lparr>choices = [plain_reply]\<rparr> = plain_reply # []"
    by simp
  have h4: "tool_calls plain_reply = None \<or> tool_calls plain_reply = Some []"
    by (simp add: plain_reply_def)
  have h5: "content plain_reply = Some ''I am fine, thank you.''"
    by (simp add: plain_reply_def)
  from POST_plain_text_verbatim[OF h1 h2 h3 h4 h5] h1 h2 h5
  show ?thesis by (simp add: plain_reply_def)
qed

text \<open>
  C10. When the first completion returns tool calls and the type of the first one is not
  \<^verbatim>\<open>function\<close>, the handler makes no further call (\<^verbatim>\<open>createApiGateway\<close> is not entered) and
  answers with status 200 and the fixed text as \<^verbatim>\<open>assistantResponse\<close>.
\<close>

theorem POST_unexpected_tool_call:
  assumes "OpenAI_new env = Returns ()"
    and "completions_create env (chat (initial_messages u)) = Returns c"
    and "choices c = m # ms"
    and "tool_calls m = Some (tc # rest)"
    and "tc_type tc \<noteq> ''function''"
  shows "POST env (Returns (BodyObj u)) =
          ([OpenAINew, CompletionsCreate (chat (initial_messages u))],
           \<lparr>status = 200,
            body = AssistantResponse
              ''Unexpected tool call structure. Please try again or contact support.''\<rparr>)
         \<and> GoogleApigateway \<notin> set (fst (POST env (Returns (BodyObj u))))"
  unfolding POST_def POST_try_unfold using assms
  by (simp add: json_response_def unexpected_text_def)

theorem POST_unexpected_tool_call_witness:
  "OpenAI_new custom_env = Returns ()
   \<and> completions_create custom_env (chat (initial_messages (JStr ''create a gateway'')))
       = Returns \<lparr>choices = [\<lparr>content = None, tool_calls = Some [custom_call]\<rparr>]\<rparr>
   \<and> tc_type custom_call \<noteq> ''function''
   \<and> POST custom_env (Returns (BodyObj (JStr ''create a gateway''))) =
        ([OpenAINew, CompletionsCreate (chat (initial_messages (JStr ''create a gateway'')))],
         \<lparr>status = 200,
          body = AssistantResponse
            ''Unexpected tool call structure. Please try again or contact support.''\<rparr>)"
proof -
  have h1: "OpenAI_new custom_env = Returns ()"
    by (simp add: custom_env_def demo_env_def)
  have h2: "completions_create custom_env (chat (initial_messages (JStr ''create a gateway'')))
       = Returns \<lparr>choices = [\<lparr>content = None, tool_calls = Some [custom_call]\<rparr>]\<rparr>"
    unfolding custom_env_def by (rule demo_first_completion)
  have h3: "choices \<lparr>choices = [\<lparr>content = None, tool_calls = Some [custom_call]\<rparr>]\<rparr>
              = \<lparr>content = None, tool_calls = Some [custom_call]\<rparr> # []"
    by simp
  have h4: "tool_calls \<lparr>content = None, tool_calls = Some [custom_call]\<rparr>
              = Some (custom_call # [])"
    by simp
  have h5: "tc_type custom_call \<noteq> ''function''"
    by (simp add: custom_call_def demo_call_def)
  from POST_unexpected_tool_call[OF h1 h2 h3 h4 h5] h1 h2 h5
  show ?thesis by simp
qed

subsection \<open>What the action returns\<close>

lemma status_of_success_text:
  "status_of_text (JSON_stringify (success_object n1 n2 n3)) = Some ''success''"
  by (simp add: status_of_text_def JSON_parse_flat_stringify member_def success_object_def)

lemma status_of_error_text:
  "status_of_text (JSON_stringify (error_object m)) = Some ''error''"
  by (simp add: status_of_text_def JSON_parse_flat_stringify member_def error_object_def)

lemma createApiGateway_returns:
  "\<exists>t s. createApiGateway_body env a = (t, Returns s)"
  unfolding createApiGateway_body_def
  by (cases "createApiGateway_try env a") (auto split: outcome.splits)

lemma createApiGateway_trace:
  "fst (createApiGateway_body env a) = GoogleApigateway # tl (fst (createApiGateway_body env a))
   \<and> GoogleApigateway \<notin> set (tl (fst (createApiGateway_body env a)))
   \<and> CompletionsCreate rq \<notin> set (fst (createApiGateway_body env a))
   \<and> ConsoleError e \<notin> set (fst (createApiGateway_body env a))
   \<and> OpenAINew \<notin> set (fst (createApiGateway_body env a))"
  unfolding createApiGateway_body_def createApiGateway_try_cases
  by (auto split: outcome.splits)

lemma count_createApiGateway:
  "count_list (fst (createApiGateway_body env a)) GoogleApigateway = 1"
  unfolding createApiGateway_body_def createApiGateway_try_cases
  by (auto split: outcome.splits)




text \<open>
  C5. For every ActionResult, the text put into the tool-role message is its serialisation
  unchanged, reading that text back gives the object that was serialised, and so the
  \<^verbatim>\<open>status\<close> member read from the content of the tool-role message is the status of the
  result.
\<close>

theorem status_survives_tool_message:
  "tool_content (tool_message tc (serialize r)) = Some (serialize r)
   \<and> JSON_parse_flat (serialize r) = Some (object_of r)
   \<and> Option.bind (tool_content (tool_message tc (serialize r))) status_of_text
       = Some (status_of r)"
  by (cases r)
     (simp_all add: tool_message_def serialize_def JSON_parse_flat_stringify
        status_of_success_text status_of_error_text)

theorem status_survives_tool_message_witness:
  "Option.bind (tool_content (tool_message demo_call (serialize (ActionError ''quota exceeded''))))
     status_of_text = Some ''error''
   \<and> Option.bind (tool_content (tool_message demo_call
        (serialize (ActionSuccess demo_api demo_config demo_gateway))))
     status_of_text = Some ''success''"
proof -
  from status_survives_tool_message[of demo_call "ActionError ''quota exceeded''"]
  have a: "Option.bind
      (tool_content (tool_message demo_call (serialize (ActionError ''quota exceeded''))))
      status_of_text = Some (status_of (ActionError ''quota exceeded''))"
    by blast
  from status_survives_tool_message
         [of demo_call "ActionSuccess demo_api demo_config demo_gateway"]
  have b: "Option.bind
      (tool_content (tool_message demo_call
         (serialize (ActionSuccess demo_api demo_config demo_gateway))))
      status_of_text = Some (status_of (ActionSuccess demo_api demo_config demo_gateway))"
    by blast
  show ?thesis
    unfolding a b by simp
qed

subsection \<open>The handler after a function call\<close>

lemma POST_after_executor:
  assumes "OpenAI_new env = Returns ()"
    and "completions_create env (chat (initial_messages u)) = Returns c"
    and "choices c = m # ms"
    and "tool_calls m = Some (tc # rest)"
    and "tc_type tc = ''function''"
    and "JSON_parse env (tc_arguments tc) = Returns p"
    and "(if tc_name tc = ''create_api_gateway'' then createApiGateway env p
          else ([], Returns (JSON_stringify
                  (error_object (''Unknown function: '' @ tc_name tc)))))
         = (texec, Returns result)"
  shows "POST env (Returns (BodyObj u)) =
    (let rq1 = chat (initial_messages u);
         rq2 = chat [SystemMsg system_prompt, UserMsg u, AssistantMsg [] [tc],
                     ToolMsg (tc_id tc) result]
     in case completions_create env rq2 of
          Throws e \<Rightarrow>
            ([OpenAINew, CompletionsCreate rq1] @ texec
               @ [CompletionsCreate rq2, ConsoleError e], error_response e)
        | Returns c2 \<Rightarrow>
           (case choices c2 of
              [] \<Rightarrow>
                ([OpenAINew, CompletionsCreate rq1] @ texec
                   @ [CompletionsCreate rq2, ConsoleError (read_undefined env)],
                 error_response (read_undefined env))
            | m2 # _ \<Rightarrow>
                ([OpenAINew, CompletionsCreate rq1] @ texec @ [CompletionsCreate rq2],
                 \<lparr>status = 200, body = AssistantResponse (content_or_empty m2)\<rparr>)))"
proof -
  have msgs: "initial_messages u @ [assistant_message tc, tool_message tc result]
      = [SystemMsg system_prompt, UserMsg u, AssistantMsg [] [tc], ToolMsg (tc_id tc) result]"
    by (simp add: initial_messages_def assistant_message_def tool_message_def)
  have hfc: "handle_function_call env (initial_messages u) tc =
    (case completions_create env
            (chat (initial_messages u @ [assistant_message tc, tool_message tc result])) of
       Throws e \<Rightarrow>
         (texec @ [CompletionsCreate
             (chat (initial_messages u @ [assistant_message tc, tool_message tc result]))],
          Throws e)
     | Returns c2 \<Rightarrow>
        (case choices c2 of
           [] \<Rightarrow> (texec @ [CompletionsCreate
               (chat (initial_messages u @ [assistant_message tc, tool_message tc result]))],
                   Throws (read_undefined env))
         | m2 # _ \<Rightarrow>
            (texec @ [CompletionsCreate
               (chat (initial_messages u @ [assistant_message tc, tool_message tc result]))],
             Returns (json_response (AssistantResponse (content_or_empty m2))))))"
    unfolding handle_function_call_unfold using assms(6,7) by simp
  show ?thesis
    unfolding POST_def POST_function_call[OF assms(1-5)] hfc msgs Let_def
    by (simp add: json_response_def split: outcome.splits list.splits)
qed

lemma calling_env_simps:
  "OpenAI_new (calling_env tc) = Returns ()"
  "google_apigateway (calling_env tc) = Returns ()"
  "JSON_parse (calling_env tc) = parse_args"
  "completions_create (calling_env tc) (chat (initial_messages u))
     = Returns \<lparr>choices = [calling tc]\<rparr>"
  "completions_create (calling_env tc) (chat [m1, m2, m3, m4])
     = Returns \<lparr>choices = [final_reply]\<rparr>"
  by (simp_all add: calling_env_def demo_env_def reply_with_def chat_def initial_messages_def)

lemma parse_demo_raw_args: "parse_args demo_raw_args = Returns (PObj demo_args)"
  by (simp add: parse_args_def demo_raw_args_def JSON_parse_flat_stringify property_def
      member_def demo_args_def)


lemma parse_truncated: "parse_args truncated_args = Throws syntax_error"
  by (simp add: parse_args_def JSON_parse_flat_def truncated_args_def consume_def)


lemma demo_createApiGateway:
  "createApiGateway_body (calling_env tc) demo_args =
     ([GoogleApigateway, ApisCreate (api_params demo_args), ConfigsCreate (config_params demo_args),
       GatewaysCreate (gateway_params demo_args demo_config)],
      Returns (JSON_stringify (success_object demo_api demo_config demo_gateway)))"
  unfolding createApiGateway_body_def createApiGateway_try_cases
  by (simp add: calling_env_def demo_env_def api_params_def config_params_def gateway_params_def
      apiParent_def demo_args_def demo_api_def demo_config_def demo_gateway_def)


text \<open>
  C2. When the first completion returns tool calls, the first of them has type
  \<^verbatim>\<open>function\<close> and its argument text parses to an object that satisfies the schema, the
  handler dispatches that call only: \<^verbatim>\<open>createApiGateway\<close> is entered at most once, whatever
  the other tool calls are. The calls made are the client construction, the first
  completion, the calls of the action, and a second completion on exactly the system message,
  the user message, the assistant message carrying the call and the tool message carrying
  the id of the call and the result of the action. The response is decided by the outcome of
  that second completion: its content with status 200, or the error response when it throws
  or has no choice.
\<close>

theorem POST_single_invocation:
  assumes "OpenAI_new env = Returns ()"
    and "completions_create env (chat (initial_messages u)) = Returns c"
    and "choices c = m # ms"
    and "tool_calls m = Some (tc # rest)"
    and "tc_type tc = ''function''"
    and "JSON_parse env (tc_arguments tc) = Returns (PObj a)"
    and "satisfies_schema a"
  shows "\<exists>texec result.
      (if tc_name tc = ''create_api_gateway'' then createApiGateway env (PObj a)
       else ([], Returns (JSON_stringify
               (error_object (''Unknown function: '' @ tc_name tc)))))
        = (texec, Returns result)
    \<and> count_list (fst (POST env (Returns (BodyObj u)))) GoogleApigateway \<le> 1
    \<and> POST env (Returns (BodyObj u)) =
       (let rq1 = chat (initial_messages u);
            rq2 = chat [SystemMsg system_prompt, UserMsg u, AssistantMsg [] [tc],
                        ToolMsg (tc_id tc) result]
        in case completions_create env rq2 of
             Throws e \<Rightarrow>
               ([OpenAINew, CompletionsCreate rq1] @ texec
                  @ [CompletionsCreate rq2, ConsoleError e], error_response e)
           | Returns c2 \<Rightarrow>
              (case choices c2 of
                 [] \<Rightarrow>
                   ([OpenAINew, CompletionsCreate rq1] @ texec
                      @ [CompletionsCreate rq2, ConsoleError (read_undefined env)],
                    error_response (read_undefined env))
               | m2 # _ \<Rightarrow>
                   ([OpenAINew, CompletionsCreate rq1] @ texec @ [CompletionsCreate rq2],
                    \<lparr>status = 200, body = AssistantResponse (content_or_empty m2)\<rparr>)))"
proof -
  obtain texec result where ca: "createApiGateway_body env a = (texec, Returns result)"
    using createApiGateway_returns by blast
  show ?thesis
  proof (cases "tc_name tc = ''create_api_gateway''")
    case True
    have ex': "(if tc_name tc = ''create_api_gateway''
        then createApiGateway env (PObj a)
        else ([], Returns (JSON_stringify
                (error_object (''Unknown function: '' @ tc_name tc)))))
       = (texec, Returns result)"
      using True ca by (simp add: createApiGateway_def)
    note run = POST_after_executor[OF assms(1-6) ex']
    have cnt: "count_list texec GoogleApigateway = 1"
      using ca count_createApiGateway[of env a] by simp
    have c: "count_list (fst (POST env (Returns (BodyObj u)))) GoogleApigateway \<le> 1"
      unfolding run Let_def using cnt
      by (simp split: outcome.splits list.splits)
    from ex' c run show ?thesis by blast
  next
    case False
    let ?r = "JSON_stringify (error_object (''Unknown function: '' @ tc_name tc))"
    have ex': "(if tc_name tc = ''create_api_gateway''
        then createApiGateway env (PObj a)
        else ([], Returns ?r)) = ([], Returns ?r)"
      using False by simp
    note run = POST_after_executor[OF assms(1-6) ex']
    have c: "count_list (fst (POST env (Returns (BodyObj u)))) GoogleApigateway \<le> 1"
      unfolding run Let_def
      by (simp split: outcome.splits list.splits)
    from ex' c run show ?thesis by blast
  qed
qed

theorem POST_single_invocation_witness:
  "OpenAI_new (calling_env demo_call) = Returns ()
   \<and> completions_create (calling_env demo_call) (chat (initial_messages demo_instruction))
       = Returns \<lparr>choices = [calling demo_call]\<rparr>
   \<and> tool_calls (calling demo_call) = Some [demo_call]
   \<and> tc_type demo_call = ''function''
   \<and> JSON_parse (calling_env demo_call) (tc_arguments demo_call) = Returns (PObj demo_args)
   \<and> satisfies_schema demo_args
   \<and> POST (calling_env demo_call) (Returns (BodyObj demo_instruction)) =
       ([OpenAINew, CompletionsCreate (chat (initial_messages demo_instruction)),
         GoogleApigateway, ApisCreate (api_params demo_args),
         ConfigsCreate (config_params demo_args),
         GatewaysCreate (gateway_params demo_args demo_config),
         CompletionsCreate (chat
           [SystemMsg system_prompt, UserMsg demo_instruction, AssistantMsg [] [demo_call],
            ToolMsg ''call_1''
              (JSON_stringify (success_object demo_api demo_config demo_gateway))])],
        \<lparr>status = 200, body = AssistantResponse final_text\<rparr>)"
proof -
  have h1: "OpenAI_new (calling_env demo_call) = Returns ()"
    by (simp add: calling_env_simps)
  have h2: "completions_create (calling_env demo_call) (chat (initial_messages demo_instruction))
       = Returns \<lparr>choices = [calling demo_call]\<rparr>"
    by (simp add: calling_env_simps)
  have h3: "choices \<lparr>choices = [calling demo_call]\<rparr> = calling demo_call # []"
    by simp
  have h4: "tool_calls (calling demo_call) = Some (demo_call # [])"
    by (simp add: calling_def)
  have h5: "tc_type demo_call = ''function''"
    by (simp add: demo_call_def)
  have h6: "JSON_parse (calling_env demo_call) (tc_arguments demo_call)
              = Returns (PObj demo_args)"
    by (simp add: calling_env_simps demo_call_def parse_demo_raw_args)
  have h7: "satisfies_schema demo_args"
    by (simp add: satisfies_schema_def is_string_def demo_args_def)
  have nm: "tc_name demo_call = ''create_api_gateway''" "tc_id demo_call = ''call_1''"
    by (simp_all add: demo_call_def)
  from POST_single_invocation[OF h1 h2 h3 h4 h5 h6 h7] obtain texec result where
    a: "(if tc_name demo_call = ''create_api_gateway''
         then createApiGateway (calling_env demo_call) (PObj demo_args)
         else ([], Returns (JSON_stringify
                 (error_object (''Unknown function: '' @ tc_name demo_call)))))
        = (texec, Returns result)"
    and b: "POST (calling_env demo_call) (Returns (BodyObj demo_instruction)) =
       (let rq1 = chat (initial_messages demo_instruction);
            rq2 = chat [SystemMsg system_prompt, UserMsg demo_instruction,
                        AssistantMsg [] [demo_call], ToolMsg (tc_id demo_call) result]
        in case completions_create (calling_env demo_call) rq2 of
             Throws e \<Rightarrow>
               ([OpenAINew, CompletionsCreate rq1] @ texec
                  @ [CompletionsCreate rq2, ConsoleError e], error_response e)
           | Returns c2 \<Rightarrow>
              (case choices c2 of
                 [] \<Rightarrow>
                   ([OpenAINew, CompletionsCreate rq1] @ texec
                      @ [CompletionsCreate rq2,
                         ConsoleError (read_undefined (calling_env demo_call))],
                    error_response (read_undefined (calling_env demo_call)))
               | m2 # _ \<Rightarrow>
                   ([OpenAINew, CompletionsCreate rq1] @ texec @ [CompletionsCreate rq2],
                    \<lparr>status = 200, body = AssistantResponse (content_or_empty m2)\<rparr>)))"
    by blast
  from a have tx: "texec = [GoogleApigateway, ApisCreate (api_params demo_args),
         ConfigsCreate (config_params demo_args),
         GatewaysCreate (gateway_params demo_args demo_config)]"
    and rs: "result = JSON_stringify (success_object demo_api demo_config demo_gateway)"
    by (simp_all add: nm createApiGateway_def demo_createApiGateway)
  have p: "POST (calling_env demo_call) (Returns (BodyObj demo_instruction)) =
       ([OpenAINew, CompletionsCreate (chat (initial_messages demo_instruction)),
         GoogleApigateway, ApisCreate (api_params demo_args),
         ConfigsCreate (config_params demo_args),
         GatewaysCreate (gateway_params demo_args demo_config),
         CompletionsCreate (chat
           [SystemMsg system_prompt, UserMsg demo_instruction, AssistantMsg [] [demo_call],
            ToolMsg ''call_1''
              (JSON_stringify (success_object demo_api demo_config demo_gateway))])],
        \<lparr>status = 200, body = AssistantResponse final_text\<rparr>)"
    unfolding b tx rs Let_def
    by (simp add: calling_env_simps nm content_or_empty_def final_reply_def)
  from h1 h2 h4 h5 h6 h7 p show ?thesis by simp
qed




lemma truncated_call_facts:
  "OpenAI_new (calling_env truncated_call) = Returns ()"
  "completions_create (calling_env truncated_call) (chat (initial_messages demo_instruction))
     = Returns \<lparr>choices = [calling truncated_call]\<rparr>"
  "choices \<lparr>choices = [calling truncated_call]\<rparr> = calling truncated_call # []"
  "tool_calls (calling truncated_call) = Some (truncated_call # [])"
  "tc_type truncated_call = ''function''"
  "JSON_parse (calling_env truncated_call) (tc_arguments truncated_call) = Throws syntax_error"
  by (simp_all add: calling_env_simps calling_def truncated_call_def demo_call_def
      parse_truncated)





subsection \<open>Failures of the completion service, and the status of the response\<close>

lemma chat_inject: "chat ms = chat ms' \<longleftrightarrow> ms = ms'"
  by (simp add: chat_def)

lemma POST_try_status: "POST_try env request = (t, Returns r) \<Longrightarrow> status r = 200"
  unfolding POST_try_unfold handle_function_call_unfold
  by (auto simp: json_response_def
      split: outcome.splits prod.splits option.splits list.splits if_splits
        request_body.splits)

lemma executor_no_completion:
  "CompletionsCreate rq \<notin> set (fst (createApiGateway env p))"
  using createApiGateway_trace[of env _ rq]
  by (cases p) (simp_all add: createApiGateway_def now_def)

lemma handle_function_call_failure:
  assumes "CompletionsCreate rq \<in> set (fst (handle_function_call env (initial_messages u) tc))"
    and "completions_create env rq = Throws e"
  shows "\<exists>pre. handle_function_call env (initial_messages u) tc
            = (pre @ [CompletionsCreate rq], Throws e)
          \<and> CompletionsCreate rq \<notin> set pre"
proof (cases "JSON_parse env (tc_arguments tc)")
  case (Throws e')
  with assms(1) show ?thesis
    unfolding handle_function_call_unfold by simp
next
  case (Returns p)
  let ?X = "if tc_name tc = ''create_api_gateway'' then createApiGateway env p
            else ([], Returns (JSON_stringify
                    (error_object (''Unknown function: '' @ tc_name tc))))"
  obtain texec rexec where X: "?X = (texec, rexec)"
    by (cases ?X)
  have no: "CompletionsCreate rq \<notin> set texec"
    using X executor_no_completion[of rq env p]
    by (cases "tc_name tc = ''create_api_gateway''") auto
  show ?thesis
  proof (cases rexec)
    case (Throws e')
    with assms(1) no Returns X show ?thesis
      unfolding handle_function_call_unfold by simp
  next
    case res: (Returns result)
    let ?rq2 = "chat (initial_messages u @ [assistant_message tc, tool_message tc result])"
    have tr: "fst (handle_function_call env (initial_messages u) tc)
                = texec @ [CompletionsCreate ?rq2]"
      unfolding handle_function_call_unfold using Returns X res
      by (simp split: outcome.splits list.splits)
    with assms(1) no have rq: "rq = ?rq2" by simp
    have "handle_function_call env (initial_messages u) tc
            = (texec @ [CompletionsCreate rq], Throws e)"
      unfolding handle_function_call_unfold using Returns X res assms(2) rq
      by simp
    with no show ?thesis by blast
  qed
qed

lemma POST_try_failure:
  assumes "CompletionsCreate rq \<in> set (fst (POST_try env request))"
    and "completions_create env rq = Throws e"
  shows "\<exists>pre. POST_try env request = (pre @ [CompletionsCreate rq], Throws e)
          \<and> CompletionsCreate rq \<notin> set pre"
proof -
  have hfc: "\<exists>pre. OpenAINew # CompletionsCreate (chat (initial_messages u))
                # fst (handle_function_call env (initial_messages u) tc)
             = pre @ [CompletionsCreate rq]
          \<and> snd (handle_function_call env (initial_messages u) tc) = Throws e
          \<and> CompletionsCreate rq \<notin> set pre"
    if ret: "completions_create env (chat (initial_messages u)) = Returns c"
      and mem: "CompletionsCreate rq
        \<in> set (fst (handle_function_call env (initial_messages u) tc))"
    for u tc c
  proof -
    from ret assms(2) have d: "rq \<noteq> chat (initial_messages u)" by auto
    from handle_function_call_failure[OF mem assms(2)] obtain pre where
      p: "handle_function_call env (initial_messages u) tc
            = (pre @ [CompletionsCreate rq], Throws e)"
      and n: "CompletionsCreate rq \<notin> set pre"
      by blast
    have "OpenAINew # CompletionsCreate (chat (initial_messages u))
                # fst (handle_function_call env (initial_messages u) tc)
        = (OpenAINew # CompletionsCreate (chat (initial_messages u)) # pre)
              @ [CompletionsCreate rq]"
      by (simp add: p)
    moreover have "snd (handle_function_call env (initial_messages u) tc) = Throws e"
      by (simp add: p)
    moreover have "CompletionsCreate rq
        \<notin> set (OpenAINew # CompletionsCreate (chat (initial_messages u)) # pre)"
      using n d by simp
    ultimately show ?thesis by blast
  qed
  have first: "\<exists>pre. [OpenAINew, CompletionsCreate r] = pre @ [CompletionsCreate r]
          \<and> CompletionsCreate r \<notin> set pre" for r
    by (rule exI[of _ "[OpenAINew]"]) simp
  show ?thesis
    using assms
    unfolding POST_try_unfold
    by (auto split: outcome.splits option.splits list.splits if_splits request_body.splits
        intro: hfc first)
qed

lemma completion_failure_aux:
  assumes "CompletionsCreate rq \<in> set (fst (POST env request))"
    and "completions_create env rq = Throws e"
  shows "\<exists>pre. POST env request
            = (pre @ [CompletionsCreate rq, ConsoleError e], error_response e)
          \<and> CompletionsCreate rq \<notin> set pre"
proof -
  obtain t r where tr: "POST_try env request = (t, r)"
    by (cases "POST_try env request")
  have "CompletionsCreate rq \<in> set t"
    using assms(1) tr by (cases r) (auto simp: POST_def)
  with tr have "CompletionsCreate rq \<in> set (fst (POST_try env request))" by simp
  from POST_try_failure[OF this assms(2)] obtain pre where
    p: "POST_try env request = (pre @ [CompletionsCreate rq], Throws e)"
    and n: "CompletionsCreate rq \<notin> set pre"
    by blast
  have "POST env request = (pre @ [CompletionsCreate rq, ConsoleError e], error_response e)"
    by (simp add: POST_def p)
  with n show ?thesis by blast
qed

text \<open>
  C6. When a completion call of a request throws, the response is status 500 with the body
  \<^verbatim>\<open>{ error: true, message }\<close> whose message is the text of the thrown value; that call is the
  last call of the request but for the log of the catch block, and the same completion
  request is not made before it: nothing is retried and nothing else is returned.
\<close>

theorem completion_failure_is_fatal:
  assumes "CompletionsCreate rq \<in> set (fst (POST env request))"
    and "completions_create env rq = Throws e"
  shows "snd (POST env request) = \<lparr>status = 500, body = ErrorBody (errText e)\<rparr>
       \<and> (\<exists>pre. fst (POST env request) = pre @ [CompletionsCreate rq, ConsoleError e]
               \<and> CompletionsCreate rq \<notin> set pre)"
  using completion_failure_aux[OF assms] by (auto simp: error_response_def)

theorem completion_failure_is_fatal_witness:
  "CompletionsCreate (chat (initial_messages demo_instruction))
     \<in> set (fst (POST rate_limited_env (Returns (BodyObj demo_instruction))))
   \<and> completions_create rate_limited_env (chat (initial_messages demo_instruction))
       = Throws rate_limit
   \<and> snd (POST rate_limited_env (Returns (BodyObj demo_instruction)))
       = \<lparr>status = 500, body = ErrorBody ''429 Rate limit reached''\<rparr>"
proof -
  have h1: "CompletionsCreate (chat (initial_messages demo_instruction))
     \<in> set (fst (POST rate_limited_env (Returns (BodyObj demo_instruction))))"
    unfolding POST_def POST_try_unfold
    by (simp add: rate_limited_env_def demo_env_def)
  have h2: "completions_create rate_limited_env (chat (initial_messages demo_instruction))
       = Throws rate_limit"
    by (simp add: rate_limited_env_def)
  from completion_failure_is_fatal[OF h1 h2] h1 h2
  show ?thesis by (simp add: errText_def rate_limit_def)
qed

text \<open>
  C8, as the claim is written, fails: a body without \<^verbatim>\<open>userMessage\<close> is not rejected. The
  handler sends the conversation with the undefined content to the completion service, and
  when that service refuses it the response has status 500, not a client-error status.
\<close>

theorem missing_userMessage_not_rejected:
  "POST strict_env (Returns (BodyObj JUndefined)) =
     ([OpenAINew, CompletionsCreate (chat [SystemMsg system_prompt, UserMsg JUndefined]),
       ConsoleError bad_request],
      \<lparr>status = 500, body = ErrorBody ''400 Invalid value for content''\<rparr>)"
  unfolding POST_def POST_try_unfold
  by (simp add: strict_env_def demo_env_def initial_messages_def error_response_def
      errText_def bad_request_def)

text \<open>
  C8, amended. The status of every response of the handler is 200 or 500, so no request is
  answered with a client-error status; and for a body without \<^verbatim>\<open>userMessage\<close> the handler,
  once the client is constructed, issues the first completion with the undefined user
  content.
\<close>

theorem POST_never_rejects:
  "(status (snd (POST env request)) = 200 \<or> status (snd (POST env request)) = 500)
   \<and> (OpenAI_new env = Returns () \<longrightarrow>
        (\<exists>tail. fst (POST env (Returns (BodyObj JUndefined))) =
           OpenAINew # CompletionsCreate (chat [SystemMsg system_prompt, UserMsg JUndefined])
             # tail))"
proof (intro conjI impI)
  show "status (snd (POST env request)) = 200 \<or> status (snd (POST env request)) = 500"
  proof (cases "POST_try env request")
    case (Pair t r)
    then show ?thesis
      using POST_try_status[of env request t]
      by (cases r) (auto simp: POST_def error_response_def)
  qed
next
  assume "OpenAI_new env = Returns ()"
  then show "\<exists>tail. fst (POST env (Returns (BodyObj JUndefined))) =
           OpenAINew # CompletionsCreate (chat [SystemMsg system_prompt, UserMsg JUndefined])
             # tail"
    unfolding POST_def POST_try_unfold
    by (auto simp: initial_messages_def
        split: outcome.splits prod.splits option.splits list.splits)
qed

theorem POST_never_rejects_witness:
  "OpenAI_new plain_env = Returns ()
   \<and> status (snd (POST plain_env (Returns (BodyObj JUndefined)))) = 200
   \<and> (\<exists>tail. fst (POST plain_env (Returns (BodyObj JUndefined))) =
         OpenAINew # CompletionsCreate (chat [SystemMsg system_prompt, UserMsg JUndefined])
           # tail)"
proof -
  have h: "OpenAI_new plain_env = Returns ()"
    by (simp add: plain_env_def demo_env_def)
  have s: "status (snd (POST plain_env (Returns (BodyObj JUndefined)))) = 200"
    unfolding POST_def POST_try_unfold plain_env_def demo_first_completion
    by (simp add: demo_env_def plain_reply_def json_response_def)
  from POST_never_rejects[of plain_env "Returns (BodyObj JUndefined)"] h s
  show ?thesis by blast
qed

end
